theory Spec2Isabelle
  imports Complex_Main
begin

unbundle bit_operations_syntax

section \<open>The face mask detector\<close>

text \<open>
  The module holds one class, \<open>FaceMaskDetector\<close>, a subclass of \<open>ImageAndVideo\<close>.
  The object is a record of the fields the methods read and write; a method takes the
  object and returns it updated, together with either the exception that escaped or the
  value returned.

  Type parameters: \<open>'f\<close> is a cropped face image, \<open>'p\<close> the number type of the
  probabilities (the definitions only need \<open>1\<close>, \<open>-\<close> and \<open>\<le>\<close> on it), \<open>'b\<close> the state
  inherited from \<open>ImageAndVideo\<close> that this module never names (image, video stream,
  boxes), \<open>'e\<close> the exceptions of the collaborators, which no method here catches.

  Python computes the probabilities in floating point. A theorem that needs more of the
  numbers than the three operations says so in its type: a reflexive order, or the type
  \<open>number\<close> below, which rounds as the code does. The concrete objects use the reals, so
  their arithmetic is exact, except \<open>detector32\<close>, which is over \<open>number\<close>.
\<close>

subsection \<open>Strings: Python's \<open>in\<close> on \<open>str\<close>\<close>

fun startswith :: "string \<Rightarrow> string \<Rightarrow> bool" where
  "startswith s [] = True"
| "startswith [] (c # cs) = False"
| "startswith (d # ds) (c # cs) = (d = c \<and> startswith ds cs)"

text \<open>\<open>str_in sub s\<close> is Python's \<open>sub in s\<close>: \<open>sub\<close> occurs in \<open>s\<close> as a contiguous run.\<close>

fun str_in :: "string \<Rightarrow> string \<Rightarrow> bool" where
  "str_in sub [] = (sub = [])"
| "str_in sub (d # ds) = (startswith (d # ds) sub \<or> str_in sub ds)"

subsection \<open>The object and what is printed\<close>

text \<open>
  A printed line is either a literal text or the f-string
  \<open>Probability of wearing mask: {x}\<close>, kept with its number unformatted.
\<close>

datatype 'p line = Text string | Probability_of_wearing_mask 'p

type_synonym color = "int \<times> int \<times> int"

text \<open>
  \<open>mask_model\<close> is the loaded interpreter. One use of it in the source is the sequence
  \<open>set_tensor\<close>, \<open>invoke\<close>, \<open>get_tensor(...)[0][0]\<close>: one face in, one number out, or
  an exception. The field \<open>stdout\<close> is not a field of the Python object: it is the text
  written by \<open>print\<close>, carried along with the object.
\<close>

record ('f, 'p, 'b, 'e) FaceMaskDetector =
  mask_detect_model_location :: string
  mask_model :: "'f \<Rightarrow> 'e + 'p"
  faces :: "'f list"
  labels :: "string list"
  colors :: "color list"
  base :: 'b
  stdout :: "'p line list"

definition print :: "'p line \<Rightarrow> ('f, 'p, 'b, 'e) FaceMaskDetector
    \<Rightarrow> ('f, 'p, 'b, 'e) FaceMaskDetector" where
  "print l s = s\<lparr>stdout := stdout s @ [l]\<rparr>"

subsection \<open>\<open>detect_facemask\<close>\<close>

text \<open>
  The \<open>for face in self.faces\<close> loop. Both branches at the end of the body return, so
  the body runs for the first face only and the equation for a non-empty list has no
  recursive call. When the list is empty the function falls off its end and returns
  \<open>None\<close>.
\<close>

fun detect_facemask_loop :: "'p::{one,minus,ord} \<Rightarrow> bool \<Rightarrow> 'f list
    \<Rightarrow> ('f, 'p, 'b, 'e) FaceMaskDetector
    \<Rightarrow> ('e + bool option) \<times> ('f, 'p, 'b, 'e) FaceMaskDetector" where
  "detect_facemask_loop mask_probability verbose [] s = (Inr None, s)"
| "detect_facemask_loop mask_probability verbose (face # rest) s =
     (case mask_model s face of
        Inl e \<Rightarrow> (Inl e, s)
      | Inr mask_prob \<Rightarrow>
          let s1 = (if verbose
                    then print (Probability_of_wearing_mask (1 - mask_prob))
                           (print (Text (replicate 100 CHR ''-'')) s)
                    else s);
              label = (if (1 - mask_prob) \<ge> mask_probability
                       then ''Wearing Mask'' else ''No Mask'');
              color = (if str_in ''Wearing Mask'' label
                       then (0, 102, 0) else (33, 33, 183));
              s2 = print (Text label) s1;
              s3 = s2\<lparr>labels := labels s2 @ [label]\<rparr>;
              s4 = s3\<lparr>colors := colors s3 @ [color]\<rparr>
          in if str_in ''Wearing Mask'' label
             then (Inr (Some True), s4)
             else (Inr (Some False), s4))"

definition detect_facemask :: "'p::{one,minus,ord} \<Rightarrow> bool
    \<Rightarrow> ('f, 'p, 'b, 'e) FaceMaskDetector
    \<Rightarrow> ('e + bool option) \<times> ('f, 'p, 'b, 'e) FaceMaskDetector" where
  "detect_facemask mask_probability verbose s =
     (let s1 = s\<lparr>labels := []\<rparr>;
          s2 = s1\<lparr>colors := []\<rparr>
      in detect_facemask_loop mask_probability verbose (faces s2) s2)"

subsection \<open>The methods inherited from \<open>ImageAndVideo\<close>\<close>

text \<open>
  \<open>core.core\<close> is not part of the module. Its methods are parameters: each may change
  the object in any way and may raise.
\<close>

record ('f, 'p, 'b, 'e) ImageAndVideo =
  capture_frame_and_load_image :: "('f, 'p, 'b, 'e) FaceMaskDetector
    \<Rightarrow> ('e + unit) \<times> ('f, 'p, 'b, 'e) FaceMaskDetector"
  detect_faces :: "'p \<Rightarrow> ('f, 'p, 'b, 'e) FaceMaskDetector
    \<Rightarrow> ('e + unit) \<times> ('f, 'p, 'b, 'e) FaceMaskDetector"
  draw_boxes_around_faces :: "('f, 'p, 'b, 'e) FaceMaskDetector
    \<Rightarrow> ('e + unit) \<times> ('f, 'p, 'b, 'e) FaceMaskDetector"

subsection \<open>\<open>capture_frame_and_detect_facemask\<close>\<close>

text \<open>The closing \<open>for label in self.labels\<close> loop, with its \<open>return False\<close> after it.\<close>

fun labels_loop :: "string list \<Rightarrow> bool" where
  "labels_loop [] = False"
| "labels_loop (label # rest) =
     (if str_in ''Wearing Mask'' label then True else labels_loop rest)"

definition capture_frame_and_detect_facemask ::
  "('f, 'p::{one,minus,ord}, 'b, 'e) ImageAndVideo \<Rightarrow> 'p \<Rightarrow> 'p \<Rightarrow> bool
    \<Rightarrow> ('f, 'p, 'b, 'e) FaceMaskDetector
    \<Rightarrow> ('e + bool) \<times> ('f, 'p, 'b, 'e) FaceMaskDetector" where
  "capture_frame_and_detect_facemask super mask_probability face_probability verbose s =
     (case capture_frame_and_load_image super s of
        (Inl e, s1) \<Rightarrow> (Inl e, s1)
      | (Inr _, s1) \<Rightarrow>
     (case detect_faces super face_probability s1 of
        (Inl e, s2) \<Rightarrow> (Inl e, s2)
      | (Inr _, s2) \<Rightarrow>
     (case detect_facemask mask_probability verbose s2 of
        (Inl e, s3) \<Rightarrow> (Inl e, s3)
      | (Inr _, s3) \<Rightarrow>
     (case draw_boxes_around_faces super s3 of
        (Inl e, s4) \<Rightarrow> (Inl e, s4)
      | (Inr _, s4) \<Rightarrow> (Inr (labels_loop (labels s4)), s4)))))"

subsection \<open>\<open>capture_frame_and_detect_facemask_live\<close>\<close>

text \<open>
  What the live loop calls outside the class: \<open>vs_read_resize_load\<close> stands for the
  three statements \<open>frame = self.vs.read()\<close>, \<open>frame = resize(frame, width=400)\<close>,
  \<open>self.load_image_from_frame(frame)\<close>; the other three are the \<open>cv2\<close> functions of
  the same names, \<open>waitKey\<close> giving the integer that \<open>cv2.waitKey(1)\<close> returns and
  \<open>imshow\<close> taking in the \<open>cvtColor\<close> of its argument.
\<close>

record ('f, 'p, 'b, 'e) cv2 =
  vs_read_resize_load :: "('f, 'p, 'b, 'e) FaceMaskDetector
    \<Rightarrow> ('e + unit) \<times> ('f, 'p, 'b, 'e) FaceMaskDetector"
  waitKey :: "('f, 'p, 'b, 'e) FaceMaskDetector
    \<Rightarrow> ('e + int) \<times> ('f, 'p, 'b, 'e) FaceMaskDetector"
  imshow :: "('f, 'p, 'b, 'e) FaceMaskDetector
    \<Rightarrow> ('e + unit) \<times> ('f, 'p, 'b, 'e) FaceMaskDetector"
  destroyAllWindows :: "('f, 'p, 'b, 'e) FaceMaskDetector
    \<Rightarrow> ('e + unit) \<times> ('f, 'p, 'b, 'e) FaceMaskDetector"

text \<open>
  \<open>while True\<close> ends only at the \<open>break\<close> or by an exception, so the method is a partial
  function: \<open>None\<close> is the run that never leaves the loop.
\<close>

partial_function (option) capture_frame_and_detect_facemask_live ::
  "('f, 'p::{one,minus,ord}, 'b, 'e) ImageAndVideo \<Rightarrow> ('f, 'p, 'b, 'e) cv2
    \<Rightarrow> 'p \<Rightarrow> 'p \<Rightarrow> bool
    \<Rightarrow> ('f, 'p, 'b, 'e) FaceMaskDetector
    \<Rightarrow> (('e + unit) \<times> ('f, 'p, 'b, 'e) FaceMaskDetector) option" where
  "capture_frame_and_detect_facemask_live super cv mask_probability face_probability verbose s =
     (case vs_read_resize_load cv s of
        (Inl e, s1) \<Rightarrow> Some (Inl e, s1)
      | (Inr _, s1) \<Rightarrow>
     (case detect_faces super face_probability s1 of
        (Inl e, s2) \<Rightarrow> Some (Inl e, s2)
      | (Inr _, s2) \<Rightarrow>
     (case detect_facemask mask_probability verbose s2 of
        (Inl e, s3) \<Rightarrow> Some (Inl e, s3)
      | (Inr _, s3) \<Rightarrow>
     (case draw_boxes_around_faces super s3 of
        (Inl e, s4) \<Rightarrow> Some (Inl e, s4)
      | (Inr _, s4) \<Rightarrow>
     (case waitKey cv s4 of
        (Inl e, s5) \<Rightarrow> Some (Inl e, s5)
      | (Inr k, s5) \<Rightarrow>
     (case imshow cv s5 of
        (Inl e, s6) \<Rightarrow> Some (Inl e, s6)
      | (Inr _, s6) \<Rightarrow>
          if k AND 0xFF = of_char CHR ''q''
          then Some (destroyAllWindows cv s6)
          else capture_frame_and_detect_facemask_live super cv
                 mask_probability face_probability verbose s6))))))"

subsection \<open>Default arguments\<close>

text \<open>
  A Python call may leave a keyword argument out; the \<open>def\<close> line then supplies the
  default. \<open>call_f\<close> is a call of \<open>f\<close> in which each argument is given (\<open>Some\<close>) or left
  out (\<open>None\<close>); the defaults are those of the three \<open>def\<close> lines.
\<close>

fun or_default :: "'a option \<Rightarrow> 'a \<Rightarrow> 'a" where
  "or_default None d = d"
| "or_default (Some x) d = x"

definition call_detect_facemask :: "real option \<Rightarrow> bool option
    \<Rightarrow> ('f, real, 'b, 'e) FaceMaskDetector
    \<Rightarrow> ('e + bool option) \<times> ('f, real, 'b, 'e) FaceMaskDetector" where
  "call_detect_facemask mask_probability verbose =
     detect_facemask (or_default mask_probability 0.995) (or_default verbose False)"

definition call_capture_frame_and_detect_facemask ::
  "('f, real, 'b, 'e) ImageAndVideo \<Rightarrow> real option \<Rightarrow> real option \<Rightarrow> bool option
    \<Rightarrow> ('f, real, 'b, 'e) FaceMaskDetector
    \<Rightarrow> ('e + bool) \<times> ('f, real, 'b, 'e) FaceMaskDetector" where
  "call_capture_frame_and_detect_facemask super mask_probability face_probability verbose =
     capture_frame_and_detect_facemask super
       (or_default mask_probability 0.995) (or_default face_probability 0.9)
       (or_default verbose False)"

definition call_capture_frame_and_detect_facemask_live ::
  "('f, real, 'b, 'e) ImageAndVideo \<Rightarrow> ('f, real, 'b, 'e) cv2
    \<Rightarrow> real option \<Rightarrow> real option \<Rightarrow> bool option
    \<Rightarrow> ('f, real, 'b, 'e) FaceMaskDetector
    \<Rightarrow> (('e + unit) \<times> ('f, real, 'b, 'e) FaceMaskDetector) option" where
  "call_capture_frame_and_detect_facemask_live super cv mask_probability face_probability verbose =
     capture_frame_and_detect_facemask_live super cv
       (or_default mask_probability 0.975) (or_default face_probability 0.9)
       (or_default verbose False)"

subsection \<open>The numbers of the code\<close>

text \<open>
  The interpreter's output is a \<open>numpy.float32\<close>; the threshold and the literal \<open>1\<close> are
  Python numbers. \<open>Float32 x\<close> is the \<open>numpy.float32\<close> of value \<open>x\<close>, \<open>Py x\<close> the Python
  number of value \<open>x\<close>. When NumPy, from its version 2 on, meets a Python number beside
  a \<open>float32\<close>, in \<open>-\<close> as in \<open>>=\<close>, it first converts the Python number to \<open>float32\<close>,
  and the result of \<open>-\<close> is rounded to \<open>float32\<close> again; two Python floats are subtracted
  and rounded as doubles.

  Rounding is to the nearest value of the binary format, ties to the even significand.
  \<open>half_even\<close> rounds to an integer; \<open>exponent_from n e a\<close> climbs from the exponent \<open>e\<close>,
  at most \<open>n\<close> steps, while the next power of two is still at most \<open>a\<close>;
  \<open>round_binary p emin emax\<close> rounds to \<open>p\<close> significant bits with exponents from
  \<open>emin\<close> (below it the values are subnormal) to \<open>emax\<close>. Infinities and NaN are not
  values of the model: a number beyond the largest of the format stays finite.
\<close>

datatype number = Float32 real | Py real

definition half_even :: "real \<Rightarrow> int" where
  "half_even z =
     (let f = \<lfloor>z\<rfloor>; d = z - of_int f
      in if d < 1 / 2 then f
         else if 1 / 2 < d then f + 1
         else if even f then f else f + 1)"

fun exponent_from :: "nat \<Rightarrow> int \<Rightarrow> real \<Rightarrow> int" where
  "exponent_from 0 e a = e"
| "exponent_from (Suc n) e a =
     (if 2 powi (e + 1) \<le> a then exponent_from n (e + 1) a else e)"

definition round_binary :: "nat \<Rightarrow> int \<Rightarrow> int \<Rightarrow> real \<Rightarrow> real" where
  "round_binary p emin emax x =
     (let q = 2 powi (exponent_from (nat (emax - emin)) emin \<bar>x\<bar> - (int p - 1))
      in of_int (half_even (x / q)) * q)"

definition float32 :: "real \<Rightarrow> real" where
  "float32 = round_binary 24 (- 126) 127"

definition float64 :: "real \<Rightarrow> real" where
  "float64 = round_binary 53 (- 1022) 1023"

instantiation number :: "{one, minus, ord}"
begin

definition one_number :: number where
  "one_number = Py 1"

definition minus_number :: "number \<Rightarrow> number \<Rightarrow> number" where
  "minus_number a b =
     (case (a, b) of
        (Float32 x, Float32 y) \<Rightarrow> Float32 (float32 (x - y))
      | (Float32 x, Py t) \<Rightarrow> Float32 (float32 (x - float32 t))
      | (Py t, Float32 y) \<Rightarrow> Float32 (float32 (float32 t - y))
      | (Py t, Py u) \<Rightarrow> Py (float64 (t - u)))"

definition less_eq_number :: "number \<Rightarrow> number \<Rightarrow> bool" where
  "less_eq_number a b =
     (case (a, b) of
        (Float32 x, Float32 y) \<Rightarrow> x \<le> y
      | (Float32 x, Py t) \<Rightarrow> x \<le> float32 t
      | (Py t, Float32 y) \<Rightarrow> float32 t \<le> y
      | (Py t, Py u) \<Rightarrow> t \<le> u)"

definition less_number :: "number \<Rightarrow> number \<Rightarrow> bool" where
  "less_number a b =
     (case (a, b) of
        (Float32 x, Float32 y) \<Rightarrow> x < y
      | (Float32 x, Py t) \<Rightarrow> x < float32 t
      | (Py t, Float32 y) \<Rightarrow> float32 t < y
      | (Py t, Py u) \<Rightarrow> t < u)"

instance ..

end

subsection \<open>Concrete objects\<close>

text \<open>
  A detector whose faces are natural numbers and whose model gives face \<open>n\<close> the output
  \<open>n / 1000\<close>: face \<open>1\<close> has \<open>1 - p = 0.999\<close>, face \<open>5\<close> has \<open>1 - p = 0.995\<close>, face \<open>20\<close>
  has \<open>1 - p = 0.98\<close>, face \<open>500\<close> has \<open>1 - p = 0.5\<close>. Its collaborators never raise:
  \<open>detect_faces\<close> stores a fixed list of faces and the others leave the object alone.
\<close>

definition detector0 :: "nat list \<Rightarrow> string list \<Rightarrow> (nat, real, unit, unit) FaceMaskDetector" where
  "detector0 fs ls =
     \<lparr>mask_detect_model_location = ''mask.tflite'',
      mask_model = (\<lambda>n. Inr (real n / 1000)),
      faces = fs, labels = ls, colors = [], base = (), stdout = []\<rparr>"


definition super0 :: "nat list \<Rightarrow> (nat, real, unit, unit) ImageAndVideo" where
  "super0 fs =
     \<lparr>capture_frame_and_load_image = (\<lambda>s. (Inr (), s)),
      detect_faces = (\<lambda>probability s. (Inr (), s\<lparr>faces := fs\<rparr>)),
      draw_boxes_around_faces = (\<lambda>s. (Inr (), s))\<rparr>"

definition cv0 :: "int \<Rightarrow> (nat, real, unit, unit) cv2" where
  "cv0 key =
     \<lparr>vs_read_resize_load = (\<lambda>s. (Inr (), s)),
      waitKey = (\<lambda>s. (Inr key, s)),
      imshow = (\<lambda>s. (Inr (), s)),
      destroyAllWindows = (\<lambda>s. (Inr (), s))\<rparr>"

section \<open>What one call of \<open>detect_facemask\<close> does\<close>

lemma str_in_Wearing_Mask: "str_in ''Wearing Mask'' ''Wearing Mask''"
  by simp

lemma str_in_No_Mask: "\<not> str_in ''Wearing Mask'' ''No Mask''"
  by simp

lemma detect_facemask_no_faces:
  "faces s = [] \<Longrightarrow> detect_facemask mp v s = (Inr None, s\<lparr>labels := [], colors := []\<rparr>)"
  by (simp add: detect_facemask_def)

lemma detect_facemask_raises:
  "faces s = face # rest \<Longrightarrow> mask_model s face = Inl e \<Longrightarrow>
   detect_facemask mp v s = (Inl e, s\<lparr>labels := [], colors := []\<rparr>)"
  by (simp add: detect_facemask_def)

lemma detect_facemask_first_face:
  "faces s = face # rest \<Longrightarrow> mask_model s face = Inr p \<Longrightarrow>
   detect_facemask mp v s =
     (Inr (Some (mp \<le> 1 - p)),
      s\<lparr>labels := [if mp \<le> 1 - p then ''Wearing Mask'' else ''No Mask''],
        colors := [if mp \<le> 1 - p then (0, 102, 0) else (33, 33, 183)],
        stdout := stdout s
          @ (if v then [Text (replicate 100 CHR ''-''), Probability_of_wearing_mask (1 - p)]
             else [])
          @ [Text (if mp \<le> 1 - p then ''Wearing Mask'' else ''No Mask'')]\<rparr>)"
  by (simp add: detect_facemask_def print_def Let_def)

lemma detect_facemask_cases:
  obtains (empty) "faces s = []"
  | (raises) face rest e where "faces s = face # rest" "mask_model s face = Inl e"
  | (first) face rest p where "faces s = face # rest" "mask_model s face = Inr p"
proof (cases "faces s")
  case Nil
  then show ?thesis by (rule empty)
next
  case (Cons face rest)
  show ?thesis
  proof (cases "mask_model s face")
    case (Inl e)
    with Cons show ?thesis by (rule raises)
  next
    case (Inr p)
    with Cons show ?thesis by (rule first)
  qed
qed

lemma detect_facemask_frame:
  "(snd (detect_facemask mp v s))\<lparr>labels := labels s, colors := colors s, stdout := stdout s\<rparr> = s"
  by (cases s rule: detect_facemask_cases)
     (simp_all add: detect_facemask_no_faces detect_facemask_raises detect_facemask_first_face)

lemma detect_facemask_keeps:
  "faces (snd (detect_facemask mp v s)) = faces s"
  "mask_model (snd (detect_facemask mp v s)) = mask_model s"
  by (cases s rule: detect_facemask_cases;
      simp add: detect_facemask_no_faces detect_facemask_raises detect_facemask_first_face)+

lemma labels_loop_any: "labels_loop ls = (\<exists>l \<in> set ls. str_in ''Wearing Mask'' l)"
  by (induction ls) auto


section \<open>Rounding\<close>
























section \<open>The claims\<close>

text \<open>
  C1. For a non-empty list of faces the loop of \<open>detect_facemask\<close> returns inside its
  first iteration: the value returned, the labels and the colors are those of the first
  face, whatever the faces after it are (the call does the same on the object holding
  the first face alone), and through \<open>capture_frame_and_detect_facemask\<close> the first
  face's verdict alone is the boolean returned. The model is taken to give the first
  face a number, the collaborators not to raise, and \<open>draw_boxes_around_faces\<close> to leave
  the labels as they are.
\<close>
theorem early_return_first_face_decides:
  fixes mp :: "'p::{one,minus,ord}"
  assumes "capture_frame_and_load_image super s = (Inr (), s1)"
    and "detect_faces super fp s1 = (Inr (), s2)"
    and "faces s2 = face # rest"
    and "mask_model s2 face = Inr p"
    and "draw_boxes_around_faces super (snd (detect_facemask mp v s2)) = (Inr (), s4)"
    and "labels s4 = labels (snd (detect_facemask mp v s2))"
  shows "fst (detect_facemask mp v s2) = Inr (Some (mp \<le> 1 - p))
    \<and> labels (snd (detect_facemask mp v s2))
        = [if mp \<le> 1 - p then ''Wearing Mask'' else ''No Mask'']
    \<and> colors (snd (detect_facemask mp v s2))
        = [if mp \<le> 1 - p then (0, 102, 0) else (33, 33, 183)]
    \<and> detect_facemask mp v (s2\<lparr>faces := [face]\<rparr>)
        = (fst (detect_facemask mp v s2), (snd (detect_facemask mp v s2))\<lparr>faces := [face]\<rparr>)
    \<and> capture_frame_and_detect_facemask super mp fp v s = (Inr (mp \<le> 1 - p), s4)"
proof -
  note first = detect_facemask_first_face [OF assms(3) assms(4), of mp v]
  have alone: "faces (s2\<lparr>faces := [face]\<rparr>) = face # []"
    "mask_model (s2\<lparr>faces := [face]\<rparr>) face = Inr p"
    using assms(4) by simp_all
  have "labels s4 = [if mp \<le> 1 - p then ''Wearing Mask'' else ''No Mask'']"
    using assms(6) by (simp add: first)
  then have "labels_loop (labels s4) = (mp \<le> 1 - p)"
    by simp
  moreover have "draw_boxes_around_faces super (snd (detect_facemask mp v s2)) = (Inr (), s4)"
    by (rule assms(5))
  ultimately have "capture_frame_and_detect_facemask super mp fp v s = (Inr (mp \<le> 1 - p), s4)"
    using assms(1,2) first
    by (simp add: capture_frame_and_detect_facemask_def)
  then show ?thesis
    by (simp add: first detect_facemask_first_face [OF alone])
qed

theorem early_return_first_face_decides_witness:
  "capture_frame_and_detect_facemask (super0 [500, 1, 1]) (995/1000) (9/10) False (detector0 [] [])
     = (Inr False, (detector0 [500, 1, 1] [])\<lparr>labels := [''No Mask''], colors := [(33, 33, 183)],
          stdout := [Text ''No Mask'']\<rparr>)
   \<and> capture_frame_and_detect_facemask (super0 [1, 500, 500]) (995/1000) (9/10) False (detector0 [] [])
     = (Inr True, (detector0 [1, 500, 500] [])\<lparr>labels := [''Wearing Mask''], colors := [(0, 102, 0)],
          stdout := [Text ''Wearing Mask'']\<rparr>)"
  using early_return_first_face_decides [of "super0 [500, 1, 1]" "detector0 [] []" "detector0 [] []"
      "9/10" "detector0 [500, 1, 1] []" 500 "[1, 1]" "1/2" "995/1000" False
      "(detector0 [500, 1, 1] [])\<lparr>labels := [''No Mask''], colors := [(33, 33, 183)],
          stdout := [Text ''No Mask'']\<rparr>"]
    early_return_first_face_decides [of "super0 [1, 500, 500]" "detector0 [] []" "detector0 [] []"
      "9/10" "detector0 [1, 500, 500] []" 1 "[500, 500]" "1/1000" "995/1000" False
      "(detector0 [1, 500, 500] [])\<lparr>labels := [''Wearing Mask''], colors := [(0, 102, 0)],
          stdout := [Text ''Wearing Mask'']\<rparr>"]
  by (simp add: super0_def detector0_def detect_facemask_def print_def Let_def)

text \<open>
  C2, on the code. The claim is one label per face. With two faces, both given a number
  by the model, \<open>detect_facemask\<close> leaves one label and one color: the return inside the
  loop ends the call after the first face.
\<close>
theorem two_faces_one_label:
  "length (faces (detector0 [1, 1] [])) = 2
   \<and> fst (detect_facemask (995/1000) False (detector0 [1, 1] [])) = Inr (Some True)
   \<and> labels (snd (detect_facemask (995/1000) False (detector0 [1, 1] []))) = [''Wearing Mask'']
   \<and> colors (snd (detect_facemask (995/1000) False (detector0 [1, 1] []))) = [(0, 102, 0)]"
  by (simp add: detector0_def detect_facemask_def print_def Let_def)

text \<open>
  C3. For the face that \<open>detect_facemask\<close> processes, with model output \<open>p\<close>: the label
  is \<open>Wearing Mask\<close> exactly when \<open>1 - p \<ge> mask_probability\<close>, also when the two are
  equal, and \<open>No Mask\<close> otherwise; the color is \<open>(0, 102, 0)\<close> exactly when the label is
  \<open>Wearing Mask\<close> and \<open>(33, 33, 183)\<close> otherwise. It holds for any number type with a
  reflexive order.
\<close>
theorem label_and_color_of_face:
  fixes mp :: "'p::{one,minus,preorder}"
  assumes "faces s = face # rest" and "mask_model s face = Inr p"
  shows "\<exists>label color.
           labels (snd (detect_facemask mp v s)) = [label]
         \<and> colors (snd (detect_facemask mp v s)) = [color]
         \<and> (label = ''Wearing Mask'' \<longleftrightarrow> 1 - p \<ge> mp)
         \<and> (label = ''No Mask'' \<longleftrightarrow> \<not> 1 - p \<ge> mp)
         \<and> (1 - p = mp \<longrightarrow> label = ''Wearing Mask'')
         \<and> (color = (0, 102, 0) \<longleftrightarrow> label = ''Wearing Mask'')
         \<and> (color = (33, 33, 183) \<longleftrightarrow> label \<noteq> ''Wearing Mask'')"
  by (auto simp add: detect_facemask_first_face [OF assms])

theorem label_and_color_of_face_witness:
  "labels (snd (detect_facemask (995/1000) False (detector0 [5] []))) = [''Wearing Mask'']
   \<and> colors (snd (detect_facemask (995/1000) False (detector0 [5] []))) = [(0, 102, 0)]
   \<and> labels (snd (detect_facemask (995/1000) False (detector0 [6] []))) = [''No Mask'']
   \<and> colors (snd (detect_facemask (995/1000) False (detector0 [6] []))) = [(33, 33, 183)]"
proof -
  have a: "faces (detector0 [5] []) = 5 # []" "faces (detector0 [6] []) = 6 # []"
    by (simp_all add: detector0_def)
  have b: "mask_model (detector0 [5] []) 5 = Inr (5/1000)"
          "mask_model (detector0 [6] []) 6 = Inr (6/1000)"
    by (simp_all add: detector0_def)
  show ?thesis
    using label_and_color_of_face [OF a(1) b(1), of "995/1000" False]
      label_and_color_of_face [OF a(2) b(2), of "995/1000" False]
    by auto
qed

text \<open>
  C4, on the code. Three faces that \<open>detect_facemask\<close> labels, each on its own,
  \<open>No Mask\<close>, \<open>Wearing Mask\<close>, \<open>No Mask\<close>: the closing loop of
  \<open>capture_frame_and_detect_facemask\<close> is a disjunction over the labels it finds
  (\<open>labels_loop_any\<close>), but it finds the first face's label only, and the method returns
  \<open>False\<close>.
\<close>
theorem masked_second_face_is_missed:
  "labels (snd (detect_facemask (995/1000) False (detector0 [500] []))) = [''No Mask'']
   \<and> labels (snd (detect_facemask (995/1000) False (detector0 [1] []))) = [''Wearing Mask'']
   \<and> labels_loop [''No Mask'', ''Wearing Mask'', ''No Mask''] = True
   \<and> labels_loop [''No Mask'', ''No Mask''] = False
   \<and> fst (capture_frame_and_detect_facemask (super0 [500, 1, 500]) (995/1000) (9/10) False
            (detector0 [] [])) = Inr False
   \<and> labels (snd (capture_frame_and_detect_facemask (super0 [500, 1, 500]) (995/1000) (9/10) False
            (detector0 [] []))) = [''No Mask'']"
  by (simp add: capture_frame_and_detect_facemask_def super0_def detector0_def
      detect_facemask_def print_def Let_def)

text \<open>
  C5. With no faces, \<open>detect_facemask\<close> raises nothing, returns \<open>None\<close>, leaves the labels
  and the colors empty and prints nothing.
\<close>
theorem no_faces_no_labels:
  assumes "faces s = []"
  shows "fst (detect_facemask mp v s) = Inr None
       \<and> labels (snd (detect_facemask mp v s)) = []
       \<and> colors (snd (detect_facemask mp v s)) = []
       \<and> stdout (snd (detect_facemask mp v s)) = stdout s"
  by (simp add: detect_facemask_no_faces [OF assms])

theorem no_faces_no_labels_witness:
  "faces (detector0 [] [''Wearing Mask'']) = []
   \<and> fst (detect_facemask (995/1000) True (detector0 [] [''Wearing Mask''])) = Inr None
   \<and> labels (snd (detect_facemask (995/1000) True (detector0 [] [''Wearing Mask'']))) = []
   \<and> colors (snd (detect_facemask (995/1000) True (detector0 [] [''Wearing Mask'']))) = []"
proof -
  have a: "faces (detector0 [] [''Wearing Mask'']) = []"
    by (simp add: detector0_def)
  show ?thesis
    using a no_faces_no_labels [OF a, of "995/1000" True]
    by simp
qed

text \<open>
  C6. A second call of \<open>detect_facemask\<close>, made on the object the first call left, with
  the same threshold, returns or raises the same and leaves the same labels and colors.
\<close>
theorem detect_facemask_twice:
  "fst (detect_facemask mp v (snd (detect_facemask mp v s))) = fst (detect_facemask mp v s)
   \<and> labels (snd (detect_facemask mp v (snd (detect_facemask mp v s))))
       = labels (snd (detect_facemask mp v s))
   \<and> colors (snd (detect_facemask mp v (snd (detect_facemask mp v s))))
       = colors (snd (detect_facemask mp v s))"
proof (cases s rule: detect_facemask_cases)
  case empty
  then have "faces (snd (detect_facemask mp v s)) = []"
    by (simp add: detect_facemask_keeps)
  then show ?thesis
    using empty by (simp add: detect_facemask_no_faces)
next
  case (raises face rest e)
  then have "faces (snd (detect_facemask mp v s)) = face # rest"
    and "mask_model (snd (detect_facemask mp v s)) face = Inl e"
    by (simp_all add: detect_facemask_keeps)
  then show ?thesis
    using raises by (simp add: detect_facemask_raises)
next
  case (first face rest p)
  then have "faces (snd (detect_facemask mp v s)) = face # rest"
    and "mask_model (snd (detect_facemask mp v s)) face = Inr p"
    by (simp_all add: detect_facemask_keeps)
  then show ?thesis
    using first by (simp add: detect_facemask_first_face)
qed





text \<open>
  C8, as stated, fails on the code: a call of \<open>detect_facemask\<close> writes the fields
  \<open>labels\<close> and \<open>colors\<close> of the object, and with \<open>verbose\<close> unset it still prints the
  label.
\<close>
theorem detect_facemask_writes_labels:
  "labels (snd (detect_facemask (995/1000) False (detector0 [] [''No Mask''])))
     \<noteq> labels (detector0 [] [''No Mask''])
   \<and> colors (snd (detect_facemask (995/1000) False (detector0 [1] [])))
     \<noteq> colors (detector0 [1] [])
   \<and> stdout (snd (detect_facemask (995/1000) False (detector0 [1] [])))
     \<noteq> stdout (detector0 [1] [])"
  by (simp add: detector0_def detect_facemask_def print_def Let_def)

text \<open>
  C8, amended. Apart from what it prints, a call of \<open>detect_facemask\<close> writes the fields
  \<open>labels\<close> and \<open>colors\<close> and no other: the loaded model, its location, the faces and
  the inherited state are as before the call.
\<close>
theorem detect_facemask_writes_only_labels_colors:
  "(snd (detect_facemask mp v s))\<lparr>labels := labels s, colors := colors s, stdout := stdout s\<rparr> = s
   \<and> mask_model (snd (detect_facemask mp v s)) = mask_model s
   \<and> mask_detect_model_location (snd (detect_facemask mp v s)) = mask_detect_model_location s
   \<and> faces (snd (detect_facemask mp v s)) = faces s
   \<and> base (snd (detect_facemask mp v s)) = base s"
proof -
  have eq: "(snd (detect_facemask mp v s))\<lparr>labels := labels s, colors := colors s,
      stdout := stdout s\<rparr> = s"
    by (rule detect_facemask_frame)
  have "mask_detect_model_location (snd (detect_facemask mp v s)) =
      mask_detect_model_location ((snd (detect_facemask mp v s))\<lparr>labels := labels s,
        colors := colors s, stdout := stdout s\<rparr>)"
    by simp
  moreover have "base (snd (detect_facemask mp v s)) =
      base ((snd (detect_facemask mp v s))\<lparr>labels := labels s,
        colors := colors s, stdout := stdout s\<rparr>)"
    by simp
  ultimately show ?thesis
    using eq by (simp add: detect_facemask_keeps)
qed

text \<open>
  C10. After every call of \<open>detect_facemask\<close> the labels and the colors have the same
  length, and at each index the color is \<open>(0, 102, 0)\<close> if the label there is
  \<open>Wearing Mask\<close> and \<open>(33, 33, 183)\<close> if not.
\<close>
theorem labels_colors_lockstep:
  "length (labels (snd (detect_facemask mp v s))) = length (colors (snd (detect_facemask mp v s)))
   \<and> (\<forall>i < length (labels (snd (detect_facemask mp v s))).
        colors (snd (detect_facemask mp v s)) ! i =
          (if labels (snd (detect_facemask mp v s)) ! i = ''Wearing Mask''
           then (0, 102, 0) else (33, 33, 183)))"
  by (cases s rule: detect_facemask_cases)
     (simp_all add: detect_facemask_no_faces detect_facemask_raises detect_facemask_first_face)

theorem labels_colors_lockstep_witness:
  "length (labels (snd (detect_facemask (995/1000) True (detector0 [1, 500] [''No Mask'', ''No Mask'']))))
     = length (colors (snd (detect_facemask (995/1000) True (detector0 [1, 500] [''No Mask'', ''No Mask'']))))
   \<and> (0::nat) < length (labels (snd (detect_facemask (995/1000) True
          (detector0 [1, 500] [''No Mask'', ''No Mask'']))))
   \<and> labels (snd (detect_facemask (995/1000) True (detector0 [1, 500] [''No Mask'', ''No Mask'']))) ! 0
       = ''Wearing Mask''
   \<and> colors (snd (detect_facemask (995/1000) True (detector0 [1, 500] [''No Mask'', ''No Mask'']))) ! 0
       = (0, 102, 0)"
proof -
  have a: "labels (snd (detect_facemask (995/1000) True
      (detector0 [1, 500] [''No Mask'', ''No Mask'']))) = [''Wearing Mask'']"
    by (simp add: detector0_def detect_facemask_def print_def Let_def)
  show ?thesis
    using labels_colors_lockstep [of "995/1000" True "detector0 [1, 500] [''No Mask'', ''No Mask'']"]
    unfolding a by simp
qed

text \<open>
  C9, on the code. A face with \<open>1 - p = 0.98\<close>, and no \<open>mask_probability\<close> given:
  \<open>detect_facemask\<close> and \<open>capture_frame_and_detect_facemask\<close> take the threshold
  \<open>0.995\<close> and find no mask, \<open>capture_frame_and_detect_facemask_live\<close> takes \<open>0.975\<close>
  and labels the face \<open>Wearing Mask\<close>; given \<open>0.995\<close> it labels it \<open>No Mask\<close>. The live
  loop here ends after one frame, the key read being \<open>q\<close>.
\<close>
theorem live_default_threshold:
  "labels (snd (call_detect_facemask None None (detector0 [20] []))) = [''No Mask'']
   \<and> fst (call_capture_frame_and_detect_facemask (super0 [20]) None None None (detector0 [] []))
       = Inr False
   \<and> map_option (labels \<circ> snd)
        (call_capture_frame_and_detect_facemask_live (super0 [20]) (cv0 113) None None None
           (detector0 [] [])) = Some [''Wearing Mask'']
   \<and> map_option (labels \<circ> snd)
        (call_capture_frame_and_detect_facemask_live (super0 [20]) (cv0 113) (Some (995/1000)) None None
           (detector0 [] [])) = Some [''No Mask'']"
proof -
  have one_frame: "capture_frame_and_detect_facemask_live (super0 [20]) (cv0 113) mp fp False
      (detector0 [] []) = Some (Inr (), snd (detect_facemask mp False (detector0 [20] [])))"
    for mp fp :: real
    by (subst capture_frame_and_detect_facemask_live.simps)
       (simp add: super0_def cv0_def detector0_def detect_facemask_def print_def Let_def)
  show ?thesis
    unfolding call_capture_frame_and_detect_facemask_live_def or_default.simps one_frame
    by (simp add: call_detect_facemask_def call_capture_frame_and_detect_facemask_def
        capture_frame_and_detect_facemask_def super0_def detector0_def
        detect_facemask_def print_def Let_def)
qed

end
